theory Spec2Isabelle
  imports Complex_Main
begin

section \<open>The gradient-descent regression engine (regressao\_linear.py)\<close>

text \<open>
  The class \<^verbatim>\<open>RegressaoLinearManual\<close> is embedded with explicit state passing: a method
  that mutates \<^verbatim>\<open>self\<close> returns the updated instance next to its result, and a raised
  exception is the \<open>Inl\<close> branch of the result.

  Numbers: Python floats and numpy float arrays are modelled by \<open>real\<close> and \<open>real list\<close>
  (one-dimensional arrays). Rounding, infinities and NaN are outside the model; numpy's
  mean of an empty array is NaN, so the statements below that depend on the value of a mean
  are about non-empty arrays.

  Randomness: the two draws of \<^verbatim>\<open>np.random.randn()\<close> in \<^verbatim>\<open>treinar\<close> are the
  parameters \<open>z0\<close> and \<open>z1\<close>. The \<^verbatim>\<open>print\<close> calls are omitted, except for the one
  that indexes \<^verbatim>\<open>self.historico_custo[-1]\<close>, which can raise.
\<close>

subsection \<open>Exceptions and numpy's elementwise operations\<close>

datatype erro =
    BroadcastError      \<comment> \<open>numpy's ValueError: operands could not be broadcast together\<close>
  | ZeroDivisionError   \<comment> \<open>\<^verbatim>\<open>1 / (2 * m)\<close> and \<^verbatim>\<open>1 / m\<close> with \<^verbatim>\<open>m = 0\<close>\<close>
  | IndexError          \<comment> \<open>\<^verbatim>\<open>self.historico_custo[-1]\<close> on an empty list\<close>
  | ModeloNaoTreinado   \<comment> \<open>the ValueError raised by \<^verbatim>\<open>prever\<close>\<close>

text \<open>
  A binary operator on two one-dimensional arrays: equal lengths combine position by
  position, an array of length one is stretched to the other's length, and any other pair
  of lengths raises.
\<close>

definition np_broadcast ::
  "(real \<Rightarrow> real \<Rightarrow> real) \<Rightarrow> real list \<Rightarrow> real list \<Rightarrow> erro + real list" where
  "np_broadcast f xs ys =
     (if length xs = length ys then Inr (map2 f xs ys)
      else if length xs = 1 then Inr (map (f (hd xs)) ys)
      else if length ys = 1 then Inr (map (\<lambda>x. f x (hd ys)) xs)
      else Inl BroadcastError)"

definition np_mean :: "real list \<Rightarrow> real" where
  "np_mean xs = sum_list xs / real (length xs)"

definition np_std :: "real list \<Rightarrow> real" where
  "np_std xs = sqrt (np_mean (map (\<lambda>x. (x - np_mean xs)\<^sup>2) xs))"

subsection \<open>The model instance\<close>

text \<open>
  \<^verbatim>\<open>self.coeficientes\<close> is either the empty dict of the constructor (\<open>None\<close>) or the
  four-key dict stored by \<^verbatim>\<open>treinar\<close>.
\<close>

record coefs =
  intercepto :: real
  inclinacao :: real
  X_mean :: real
  X_std :: real

record modelo =
  taxa_aprendizado :: real
  max_iteracoes :: int
  tolerancia :: real
  coeficientes :: "coefs option"
  historico_custo :: "real list"

definition RegressaoLinearManual :: "real \<Rightarrow> int \<Rightarrow> real \<Rightarrow> modelo" where
  "RegressaoLinearManual lr mi tol =
     \<lparr>taxa_aprendizado = lr, max_iteracoes = mi, tolerancia = tol,
      coeficientes = None, historico_custo = []\<rparr>"

subsection \<open>Cost and gradients\<close>

definition calcular_custo :: "real list \<Rightarrow> real list \<Rightarrow> erro + real" where
  "calcular_custo y_real y_previsto =
     (let m = length y_real in
      if m = 0 then Inl ZeroDivisionError
      else (case np_broadcast (-) y_previsto y_real of
              Inl e \<Rightarrow> Inl e
            | Inr d \<Rightarrow> Inr ((1 / (2 * real m)) * sum_list (map (\<lambda>v. v\<^sup>2) d))))"

definition calcular_gradientes ::
  "real list \<Rightarrow> real list \<Rightarrow> real list \<Rightarrow> erro + real \<times> real" where
  "calcular_gradientes X y_real y_previsto =
     (let m = length y_real in
      if m = 0 then Inl ZeroDivisionError
      else (case np_broadcast (-) y_previsto y_real of
              Inl e \<Rightarrow> Inl e
            | Inr d \<Rightarrow>
                (case np_broadcast (*) d X of
                   Inl e \<Rightarrow> Inl e
                 | Inr dx \<Rightarrow> Inr ((1 / real m) * sum_list d, (1 / real m) * sum_list dx))))"

subsection \<open>Training\<close>

text \<open>
  One pass through the body of the \<^verbatim>\<open>for\<close> loop of \<^verbatim>\<open>treinar\<close>, from the
  coefficients \<open>b0\<close> (intercepto) and \<open>b1\<close> (inclinacao) of the normalised problem. The cost
  is appended before the gradients are computed; \<open>Break\<close> is the convergence exit and
  \<open>Proximo\<close> carries the coefficients assigned for the next pass.
\<close>

datatype desfecho = Excecao erro | Break | Proximo real real

definition iteracao ::
  "modelo \<Rightarrow> real list \<Rightarrow> real list \<Rightarrow> real \<Rightarrow> real \<Rightarrow> modelo \<times> desfecho" where
  "iteracao self X_norm y b0 b1 =
     (let y_previsto = map (\<lambda>x. b0 + b1 * x) X_norm in
      case calcular_custo y y_previsto of
        Inl e \<Rightarrow> (self, Excecao e)
      | Inr custo_atual \<Rightarrow>
          (let self1 = self\<lparr>historico_custo := historico_custo self @ [custo_atual]\<rparr> in
           case calcular_gradientes X_norm y y_previsto of
             Inl e \<Rightarrow> (self1, Excecao e)
           | Inr (grad_intercepto, grad_inclinacao) \<Rightarrow>
               (let novo_intercepto = b0 - taxa_aprendizado self * grad_intercepto;
                    nova_inclinacao = b1 - taxa_aprendizado self * grad_inclinacao
                in if \<bar>novo_intercepto - b0\<bar> < tolerancia self
                      \<and> \<bar>nova_inclinacao - b1\<bar> < tolerancia self
                   then (self1, Break)
                   else (self1, Proximo novo_intercepto nova_inclinacao))))"

text \<open>
  The loop \<^verbatim>\<open>for iteracao in range(self.max_iteracoes)\<close>: the first argument counts the
  passes that remain. It returns the instance and either the exception that left the loop
  or the coefficients held when the loop ended.
\<close>

fun laco ::
  "nat \<Rightarrow> modelo \<Rightarrow> real list \<Rightarrow> real list \<Rightarrow> real \<Rightarrow> real \<Rightarrow> modelo \<times> (erro + real \<times> real)" where
  "laco 0 self X_norm y b0 b1 = (self, Inr (b0, b1))"
| "laco (Suc n) self X_norm y b0 b1 =
     (case iteracao self X_norm y b0 b1 of
        (self1, Excecao e) \<Rightarrow> (self1, Inl e)
      | (self1, Break) \<Rightarrow> (self1, Inr (b0, b1))
      | (self1, Proximo novo_intercepto nova_inclinacao) \<Rightarrow>
          laco n self1 X_norm y novo_intercepto nova_inclinacao)"

text \<open>Lines 83 to 88: the normalisation of \<open>X\<close>.\<close>

definition normalizar :: "real list \<Rightarrow> real list" where
  "normalizar X =
     (let Xm = np_mean X; Xs = np_std X
      in if Xs \<noteq> 0 then map (\<lambda>x. (x - Xm) / Xs) X else map (\<lambda>x. x - Xm) X)"

text \<open>Lines 126 to 140: the coefficients in the original scale, as the dict stored.\<close>

definition desnormalizar :: "real \<Rightarrow> real \<Rightarrow> real \<Rightarrow> real \<Rightarrow> coefs" where
  "desnormalizar Xm Xs b0 b1 =
     (if Xs \<noteq> 0
      then \<lparr>intercepto = b0 - (b1 * Xm / Xs), inclinacao = b1 / Xs, X_mean = Xm, X_std = Xs\<rparr>
      else \<lparr>intercepto = b0 - (b1 * Xm), inclinacao = b1, X_mean = Xm, X_std = Xs\<rparr>)"

definition treinar ::
  "modelo \<Rightarrow> real list \<Rightarrow> real list \<Rightarrow> real \<Rightarrow> real \<Rightarrow> modelo \<times> (erro + coefs)" where
  "treinar self X y z0 z1 =
     (let X_norm = normalizar X;
          b0 = z0 * (1 / 100);
          b1 = z1 * (1 / 100)
      in case laco (nat (max_iteracoes self)) self X_norm y b0 b1 of
           (self1, Inl e) \<Rightarrow> (self1, Inl e)
         | (self1, Inr (b0', b1')) \<Rightarrow>
             (let c = desnormalizar (np_mean X) (np_std X) b0' b1';
                  self2 = self1\<lparr>coeficientes := Some c\<rparr>
              in if historico_custo self2 = [] then (self2, Inl IndexError)
                 else (self2, Inr c)))"

subsection \<open>Prediction and metrics\<close>

definition prever :: "modelo \<Rightarrow> real list \<Rightarrow> erro + real list" where
  "prever self X =
     (case coeficientes self of
        None \<Rightarrow> Inl ModeloNaoTreinado
      | Some c \<Rightarrow> Inr (map (\<lambda>x. intercepto c + inclinacao c * x) X))"

text \<open>
  \<^verbatim>\<open>calcular_r_quadrado\<close> does not convert its arguments; they are taken to be float
  arrays, as \<^verbatim>\<open>prever\<close> returns them. The source tests \<^verbatim>\<open>ss_tot == 0\<close> on the sum as
  computed in double precision, this definition on the exact sum. The two agree where the
  mean, the differences and the squares are computed without rounding, as for the small
  integers used below, and they differ otherwise: for \<^verbatim>\<open>y_real = [0.1, 0.1, 0.1]\<close> the
  computed mean is \<^verbatim>\<open>0.10000000000000002\<close>, the computed sum is not zero and the source
  takes the second branch, where this definition takes the first. The statements below use
  the definition only for what does not depend on that test: that the method neither reads
  nor assigns the instance, and its value on arrays of small integers.
\<close>

definition calcular_r_quadrado :: "modelo \<Rightarrow> real list \<Rightarrow> real list \<Rightarrow> erro + real" where
  "calcular_r_quadrado self y_real y_previsto =
     (case np_broadcast (-) y_real y_previsto of
        Inl e \<Rightarrow> Inl e
      | Inr d \<Rightarrow>
          (let ss_res = sum_list (map (\<lambda>v. v\<^sup>2) d);
               ss_tot = sum_list (map (\<lambda>v. (v - np_mean y_real)\<^sup>2) y_real)
           in if ss_tot = 0 then Inr 1 else Inr (1 - ss_res / ss_tot)))"

record metricas =
  r_quadrado :: real
  erro_quadratico_medio :: real
  erro_absoluto_medio :: real
  raiz_erro_quadratico_medio :: real

definition obter_metricas_modelo :: "modelo \<Rightarrow> real list \<Rightarrow> real list \<Rightarrow> erro + metricas" where
  "obter_metricas_modelo self X y_real =
     (case prever self X of
        Inl e \<Rightarrow> Inl e
      | Inr y_previsto \<Rightarrow>
          (case calcular_r_quadrado self y_real y_previsto of
             Inl e \<Rightarrow> Inl e
           | Inr r2 \<Rightarrow>
               (case np_broadcast (-) y_real y_previsto of
                  Inl e \<Rightarrow> Inl e
                | Inr d \<Rightarrow>
                    Inr \<lparr>r_quadrado = r2,
                         erro_quadratico_medio = np_mean (map (\<lambda>v. v\<^sup>2) d),
                         erro_absoluto_medio = np_mean (map abs d),
                         raiz_erro_quadratico_medio = sqrt (np_mean (map (\<lambda>v. v\<^sup>2) d))\<rparr>)))"

subsection \<open>Auxiliary notions used to state the properties\<close>

text \<open>
  The instance and the coefficients with which pass number \<open>j\<close> of the loop (counted from
  zero) begins, provided each earlier pass ended by assigning new coefficients; \<open>None\<close>
  when an earlier pass raised or left the loop.
\<close>

fun inicio_iteracao ::
  "nat \<Rightarrow> modelo \<Rightarrow> real list \<Rightarrow> real list \<Rightarrow> real \<Rightarrow> real \<Rightarrow> (modelo \<times> real \<times> real) option" where
  "inicio_iteracao 0 self X_norm y b0 b1 = Some (self, b0, b1)"
| "inicio_iteracao (Suc j) self X_norm y b0 b1 =
     (case iteracao self X_norm y b0 b1 of
        (self1, Proximo novo_intercepto nova_inclinacao) \<Rightarrow>
          inicio_iteracao j self1 X_norm y novo_intercepto nova_inclinacao
      | _ \<Rightarrow> None)"

text \<open>
  A call of any public method, with the instance it leaves behind. Only \<open>treinar\<close> assigns
  to attributes of \<^verbatim>\<open>self\<close>; the other three methods read them.
\<close>

datatype chamada =
    Treinar "real list" "real list" real real
  | Prever "real list"
  | CalcularRQuadrado "real list" "real list"
  | ObterMetricas "real list" "real list"

datatype retorno =
    RetCoefs "erro + coefs"
  | RetPrevisao "erro + real list"
  | RetR2 "erro + real"
  | RetMetricas "erro + metricas"

fun chamar :: "modelo \<Rightarrow> chamada \<Rightarrow> modelo \<times> retorno" where
  "chamar self (Treinar X y z0 z1) =
     (case treinar self X y z0 z1 of (self1, r) \<Rightarrow> (self1, RetCoefs r))"
| "chamar self (Prever X) = (self, RetPrevisao (prever self X))"
| "chamar self (CalcularRQuadrado y_real y_previsto) =
     (self, RetR2 (calcular_r_quadrado self y_real y_previsto))"
| "chamar self (ObterMetricas X y_real) = (self, RetMetricas (obter_metricas_modelo self X y_real))"

text \<open>The instance after a sequence of calls, made one after the other.\<close>

fun chamar_todas :: "modelo \<Rightarrow> chamada list \<Rightarrow> modelo" where
  "chamar_todas self [] = self"
| "chamar_todas self (c # cs) = chamar_todas (fst (chamar self c)) cs"

text \<open>A new instance with the hyperparameters of a given one.\<close>

definition mesma_configuracao :: "modelo \<Rightarrow> modelo" where
  "mesma_configuracao self =
     RegressaoLinearManual (taxa_aprendizado self) (max_iteracoes self) (tolerancia self)"

section \<open>Properties\<close>

subsection \<open>What a pass and the loop leave untouched\<close>

lemma iteracao_frame:
  "iteracao (self\<lparr>historico_custo := h @ historico_custo self, coeficientes := c\<rparr>) X_norm y b0 b1 =
     (case iteracao self X_norm y b0 b1 of
        (self1, d) \<Rightarrow> (self1\<lparr>historico_custo := h @ historico_custo self1, coeficientes := c\<rparr>, d))"
  by (simp add: iteracao_def Let_def split: sum.splits prod.splits)

lemma laco_frame:
  "laco n (self\<lparr>historico_custo := h @ historico_custo self, coeficientes := c\<rparr>) X_norm y b0 b1 =
     (case laco n self X_norm y b0 b1 of
        (self1, r) \<Rightarrow> (self1\<lparr>historico_custo := h @ historico_custo self1, coeficientes := c\<rparr>, r))"
proof (induction n arbitrary: self b0 b1)
  case 0
  show ?case by simp
next
  case (Suc n)
  obtain s1 d where it: "iteracao self X_norm y b0 b1 = (s1, d)"
    by (cases "iteracao self X_norm y b0 b1")
  show ?case
  proof (cases d)
    case (Excecao e)
    with it show ?thesis by (simp add: iteracao_frame)
  next
    case Break
    with it show ?thesis by (simp add: iteracao_frame)
  next
    case (Proximo n0 n1)
    with it Suc.IH [of s1 n0 n1] show ?thesis by (simp add: iteracao_frame)
  qed
qed

lemma iteracao_campos:
  assumes "iteracao self X_norm y b0 b1 = (self1, d)"
  shows "taxa_aprendizado self1 = taxa_aprendizado self"
    and "max_iteracoes self1 = max_iteracoes self"
    and "tolerancia self1 = tolerancia self"
    and "coeficientes self1 = coeficientes self"
  using assms by (auto simp: iteracao_def Let_def split: sum.splits prod.splits if_splits)

lemma laco_coeficientes:
  "laco n self X_norm y b0 b1 = (self1, r) \<Longrightarrow> coeficientes self1 = coeficientes self"
proof (induction n arbitrary: self b0 b1)
  case 0
  then show ?case by simp
next
  case (Suc n)
  obtain s1 d where it: "iteracao self X_norm y b0 b1 = (s1, d)"
    by (cases "iteracao self X_norm y b0 b1")
  from iteracao_campos(4) [OF it] have c: "coeficientes s1 = coeficientes self" .
  show ?case
  proof (cases d)
    case (Excecao e)
    with it Suc.prems c show ?thesis by auto
  next
    case Break
    with it Suc.prems c show ?thesis by auto
  next
    case (Proximo n0 n1)
    with it Suc.prems have "laco n s1 X_norm y n0 n1 = (self1, r)" by simp
    from Suc.IH [OF this] c show ?thesis by simp
  qed
qed

lemma laco_inicio:
  "inicio_iteracao j self X_norm y b0 b1 = Some (sj, c0, c1) \<Longrightarrow>
   laco (j + n) self X_norm y b0 b1 = laco n sj X_norm y c0 c1"
proof (induction j arbitrary: self b0 b1)
  case 0
  then show ?case by simp
next
  case (Suc j)
  obtain s1 d where it: "iteracao self X_norm y b0 b1 = (s1, d)"
    by (cases "iteracao self X_norm y b0 b1")
  with Suc.prems obtain n0 n1 where d: "d = Proximo n0 n1"
    by (cases d) auto
  with it Suc.prems have "inicio_iteracao j s1 X_norm y n0 n1 = Some (sj, c0, c1)" by simp
  from Suc.IH [OF this] it d show ?case by simp
qed

lemma inicio_campos:
  "inicio_iteracao j self X_norm y b0 b1 = Some (sj, c0, c1) \<Longrightarrow>
   taxa_aprendizado sj = taxa_aprendizado self \<and> tolerancia sj = tolerancia self"
proof (induction j arbitrary: self b0 b1)
  case 0
  then show ?case by simp
next
  case (Suc j)
  obtain s1 d where it: "iteracao self X_norm y b0 b1 = (s1, d)"
    by (cases "iteracao self X_norm y b0 b1")
  with Suc.prems obtain n0 n1 where d: "d = Proximo n0 n1"
    by (cases d) auto
  with it Suc.prems have "inicio_iteracao j s1 X_norm y n0 n1 = Some (sj, c0, c1)" by simp
  from Suc.IH [OF this] iteracao_campos(1,3) [OF it] show ?case by simp
qed

subsection \<open>Concrete runs are evaluated with these equations\<close>

lemmas avaliar =
  treinar_def normalizar_def desnormalizar_def iteracao_def calcular_custo_def
  calcular_gradientes_def np_broadcast_def np_mean_def np_std_def RegressaoLinearManual_def
  Let_def eval_nat_numeral

subsection \<open>The claims\<close>


text \<open>
  C8: on a freshly constructed instance, whatever its hyperparameters, \<open>prever\<close> raises the
  untrained-model error and returns no value.
\<close>

theorem prever_fresh_fails:
  "prever (RegressaoLinearManual lr mi tol) X = Inl ModeloNaoTreinado"
  by (simp add: prever_def RegressaoLinearManual_def)

lemma passo_break:
  assumes custo: "calcular_custo y (map (\<lambda>x. b0 + b1 * x) Xn) = Inr custo_atual"
    and grad: "calcular_gradientes Xn y (map (\<lambda>x. b0 + b1 * x) Xn) = Inr (g0, g1)"
    and conv0: "\<bar>(b0 - taxa_aprendizado sj * g0) - b0\<bar> < tolerancia sj"
    and conv1: "\<bar>(b1 - taxa_aprendizado sj * g1) - b1\<bar> < tolerancia sj"
  shows "iteracao sj Xn y b0 b1 =
              (sj\<lparr>historico_custo := historico_custo sj @ [custo_atual]\<rparr>, Break)"
  unfolding iteracao_def Let_def custo grad
  using conv0 conv1 by simp


lemma resta_iteracao:
  "int j < max_iteracoes self \<Longrightarrow> \<exists>k. nat (max_iteracoes self) = j + Suc k"
  by (metis add_Suc_right less_imp_Suc_add zless_nat_eq_int_zless)

text \<open>
  C1: suppose pass number \<open>j\<close> of the loop of \<open>treinar\<close>, on a non-empty \<open>X\<close>, is reached
  with coefficients \<open>b0\<close>, \<open>b1\<close>, its cost and gradients are computed, and both proposed
  coefficients differ from the current ones by less than the tolerance. Then the loop ends at once with however
  many passes left: \<open>treinar\<close> de-normalises and stores \<open>b0\<close> and \<open>b1\<close>, the values held before
  the update, and the cost history ends with the cost of this very pass.
\<close>

theorem convergencia_descarta_proposta:
  assumes inicio: "inicio_iteracao j self (normalizar X) y (z0 * (1 / 100)) (z1 * (1 / 100)) = Some (sj, b0, b1)"
    and resta: "int j < max_iteracoes self"
    and custo: "calcular_custo y (map (\<lambda>x. b0 + b1 * x) (normalizar X)) = Inr custo_atual"
    and grad: "calcular_gradientes (normalizar X) y (map (\<lambda>x. b0 + b1 * x) (normalizar X)) = Inr (g0, g1)"
    and conv0: "\<bar>(b0 - taxa_aprendizado self * g0) - b0\<bar> < tolerancia self"
    and conv1: "\<bar>(b1 - taxa_aprendizado self * g1) - b1\<bar> < tolerancia self"
    and naovazio: "X \<noteq> []"
  shows "treinar self X y z0 z1 =
           (sj\<lparr>historico_custo := historico_custo sj @ [custo_atual],
               coeficientes := Some (desnormalizar (np_mean X) (np_std X) b0 b1)\<rparr>,
            Inr (desnormalizar (np_mean X) (np_std X) b0 b1))"
proof -
  from resta_iteracao [OF resta] obtain k where k: "nat (max_iteracoes self) = j + Suc k"
    by blast
  from inicio_campos [OF inicio]
  have lr: "taxa_aprendizado sj = taxa_aprendizado self" and tol: "tolerancia sj = tolerancia self"
    by simp_all
  have it: "iteracao sj (normalizar X) y b0 b1 =
              (sj\<lparr>historico_custo := historico_custo sj @ [custo_atual]\<rparr>, Break)"
    by (rule passo_break [OF custo grad]) (simp_all only: lr tol conv0 conv1)
  have "laco (nat (max_iteracoes self)) self (normalizar X) y (z0 * (1 / 100)) (z1 * (1 / 100)) =
          laco (Suc k) sj (normalizar X) y b0 b1"
    unfolding k by (rule laco_inicio [OF inicio])
  also have "\<dots> = (sj\<lparr>historico_custo := historico_custo sj @ [custo_atual]\<rparr>, Inr (b0, b1))"
    by (simp add: it)
  finally have l: "laco (nat (max_iteracoes self)) self (normalizar X) y (z0 * (1 / 100)) (z1 * (1 / 100))
       = (sj\<lparr>historico_custo := historico_custo sj @ [custo_atual]\<rparr>, Inr (b0, b1))" .
  show ?thesis
    unfolding treinar_def Let_def l by simp
qed


text \<open>
  A run with learning rate 1/2 and tolerance 1: the first pass moves the intercept from 0
  to 3/2, the second proposes 9/4, which is within the tolerance, and 3/2 is what is stored.
\<close>

theorem convergencia_descarta_proposta_witness:
  "treinar (RegressaoLinearManual (1 / 2) 1000 1) [0, 2] [3, 3] 0 0 =
     (\<lparr>taxa_aprendizado = 1 / 2, max_iteracoes = 1000, tolerancia = 1,
        coeficientes = Some \<lparr>intercepto = 3 / 2, inclinacao = 0, X_mean = 1, X_std = 1\<rparr>,
        historico_custo = [9 / 2, 9 / 8]\<rparr>,
      Inr \<lparr>intercepto = 3 / 2, inclinacao = 0, X_mean = 1, X_std = 1\<rparr>)"
proof -
  let ?m = "RegressaoLinearManual (1 / 2) 1000 1"
  let ?s1 = "?m\<lparr>historico_custo := [9 / 2]\<rparr>"
  have n: "normalizar [0, 2] = [-1, 1]"
    by (simp add: avaliar)
  have h1: "inicio_iteracao 1 ?m (normalizar [0, 2]) [3, 3] (0 * (1 / 100)) (0 * (1 / 100))
              = Some (?s1, 3 / 2, 0)"
    unfolding n by (simp add: avaliar)
  have h2: "int 1 < max_iteracoes ?m"
    by (simp add: avaliar)
  have h3: "calcular_custo [3, 3] (map (\<lambda>x. 3 / 2 + 0 * x) (normalizar [0, 2])) = Inr (9 / 8)"
    unfolding n by (simp add: avaliar power2_eq_square)
  have h4: "calcular_gradientes (normalizar [0, 2]) [3, 3]
              (map (\<lambda>x. 3 / 2 + 0 * x) (normalizar [0, 2])) = Inr (- (3 / 2), 0)"
    unfolding n by (simp add: avaliar)
  have h5: "\<bar>(3 / 2 - taxa_aprendizado ?m * - (3 / 2)) - 3 / 2\<bar> < tolerancia ?m"
    by (simp add: avaliar)
  have h6: "\<bar>(0 - taxa_aprendizado ?m * 0) - 0\<bar> < tolerancia ?m"
    by (simp add: avaliar)
  have d: "desnormalizar (np_mean [0, 2]) (np_std [0, 2]) (3 / 2) 0 =
             \<lparr>intercepto = 3 / 2, inclinacao = 0, X_mean = 1, X_std = 1\<rparr>"
    by (simp add: desnormalizar_def np_mean_def np_std_def)
  have h7: "[0, 2 :: real] \<noteq> []"
    by simp
  from convergencia_descarta_proposta [OF h1 h2 h3 h4 h5 h6 h7]
  show ?thesis
    unfolding d by (simp add: RegressaoLinearManual_def)
qed

subsection \<open>Inputs whose shapes numpy accepts, and inputs it rejects\<close>

lemma length_normalizar: "length (normalizar X) = length X"
  by (simp add: normalizar_def Let_def)

lemma np_broadcast_ok:
  assumes "length xs = length ys \<or> length xs = 1 \<or> length ys = 1"
  shows "\<exists>d. np_broadcast f xs ys = Inr d
           \<and> length d = (if length xs = 1 then length ys else length xs)"
  using assms by (auto simp: np_broadcast_def)

lemma calcular_custo_ok:
  assumes "y \<noteq> []" and "length yp = length y \<or> length yp = 1 \<or> length y = 1"
  shows "\<exists>c. calcular_custo y yp = Inr c"
proof -
  from np_broadcast_ok [OF assms(2), of "(-)"]
  obtain d where "np_broadcast (-) yp y = Inr d" by blast
  with assms(1) show ?thesis
    by (simp add: calcular_custo_def Let_def)
qed

lemma calcular_gradientes_ok:
  assumes "y \<noteq> []" and "length yp = length y \<or> length yp = 1 \<or> length y = 1"
    and "length Xn = length yp"
  shows "\<exists>g0 g1. calcular_gradientes Xn y yp = Inr (g0, g1)"
proof -
  from np_broadcast_ok [OF assms(2), of "(-)"]
  obtain d where d: "np_broadcast (-) yp y = Inr d"
    and ld: "length d = (if length yp = 1 then length y else length yp)" by blast
  from ld assms(3) have "length d = length Xn \<or> length d = 1 \<or> length Xn = 1"
    by (auto split: if_splits)
  from np_broadcast_ok [OF this, of "(*)"]
  obtain dx where dx: "np_broadcast (*) d Xn = Inr dx" by blast
  from assms(1) d dx show ?thesis
    by (simp add: calcular_gradientes_def Let_def)
qed

lemma iteracao_ok:
  assumes "y \<noteq> []" and "length Xn = length y \<or> length Xn = 1 \<or> length y = 1"
  shows "\<exists>self1 d. iteracao self Xn y b0 b1 = (self1, d) \<and> historico_custo self1 \<noteq> []
           \<and> (d = Break \<or> (\<exists>n0 n1. d = Proximo n0 n1))"
proof -
  let ?yp = "map (\<lambda>x. b0 + b1 * x) Xn"
  have l: "length ?yp = length y \<or> length ?yp = 1 \<or> length y = 1"
    using assms(2) by simp
  from calcular_custo_ok [OF assms(1) l] obtain c where c: "calcular_custo y ?yp = Inr c"
    by blast
  have "length Xn = length ?yp" by simp
  from calcular_gradientes_ok [OF assms(1) l this]
  obtain g0 g1 where g: "calcular_gradientes Xn y ?yp = Inr (g0, g1)"
    by blast
  let ?s = "self\<lparr>historico_custo := historico_custo self @ [c]\<rparr>"
  let ?n0 = "b0 - taxa_aprendizado self * g0"
  let ?n1 = "b1 - taxa_aprendizado self * g1"
  let ?conv = "\<bar>?n0 - b0\<bar> < tolerancia self \<and> \<bar>?n1 - b1\<bar> < tolerancia self"
  have it: "iteracao self Xn y b0 b1 = (if ?conv then (?s, Break) else (?s, Proximo ?n0 ?n1))"
    unfolding iteracao_def Let_def c g by simp
  show ?thesis
  proof (cases ?conv)
    case True
    then have "iteracao self Xn y b0 b1 = (?s, Break)"
      unfolding it by (rule if_P)
    then show ?thesis by simp
  next
    case False
    then have "iteracao self Xn y b0 b1 = (?s, Proximo ?n0 ?n1)"
      unfolding it by (rule if_not_P)
    then show ?thesis by simp
  qed
qed

lemma laco_ok:
  assumes "y \<noteq> []" and "length Xn = length y \<or> length Xn = 1 \<or> length y = 1"
  shows "\<exists>self1 b0' b1'. laco (Suc n) self Xn y b0 b1 = (self1, Inr (b0', b1'))
           \<and> historico_custo self1 \<noteq> []"
proof (induction n arbitrary: self b0 b1)
  case 0
  from iteracao_ok [OF assms, of self b0 b1]
  obtain s1 d where it: "iteracao self Xn y b0 b1 = (s1, d)" and h: "historico_custo s1 \<noteq> []"
    and d: "d = Break \<or> (\<exists>n0 n1. d = Proximo n0 n1)" by blast
  from d it h show ?case by auto
next
  case (Suc n)
  from iteracao_ok [OF assms, of self b0 b1]
  obtain s1 d where it: "iteracao self Xn y b0 b1 = (s1, d)" and h: "historico_custo s1 \<noteq> []"
    and d: "d = Break \<or> (\<exists>n0 n1. d = Proximo n0 n1)" by blast
  from d show ?case
  proof
    assume "d = Break"
    with it h show ?thesis by simp
  next
    assume "\<exists>n0 n1. d = Proximo n0 n1"
    then obtain n0 n1 where p: "d = Proximo n0 n1" by blast
    from Suc.IH [of s1 n0 n1] obtain s2 c0 c1
      where "laco (Suc n) s1 Xn y n0 n1 = (s2, Inr (c0, c1))" and "historico_custo s2 \<noteq> []"
      by blast
    with it p show ?thesis by simp
  qed
qed

lemma calcular_custo_broadcast:
  assumes "length yp \<noteq> length y" and "2 \<le> length yp" and "2 \<le> length y"
  shows "calcular_custo y yp = Inl BroadcastError"
  using assms by (auto simp: calcular_custo_def np_broadcast_def Let_def)

lemma laco_broadcast:
  assumes "length Xn \<noteq> length y" and "2 \<le> length Xn" and "2 \<le> length y"
  shows "laco (Suc n) self Xn y b0 b1 = (self, Inl BroadcastError)"
proof -
  have "calcular_custo y (map (\<lambda>x. b0 + b1 * x) Xn) = Inl BroadcastError"
    using assms by (intro calcular_custo_broadcast) simp_all
  then have "iteracao self Xn y b0 b1 = (self, Excecao BroadcastError)"
    unfolding iteracao_def Let_def by simp
  then show ?thesis by simp
qed

lemma nat_max_Suc: "1 \<le> (mi::int) \<Longrightarrow> \<exists>k. nat mi = Suc k"
  by (cases "nat mi") auto

text \<open>
  C2: for equal-length, non-empty \<open>X\<close> and \<open>y\<close> and at least one pass, the loop runs on \<open>X\<close>
  normalised by its mean and standard deviation (mean-centred only when the standard
  deviation is zero) and ends with some coefficients \<open>b0\<close>, \<open>b1\<close>; \<open>treinar\<close> stores and
  returns the slope \<open>b1 / std\<close> and the intercept \<open>b0 - b1 * mean / std\<close> when the standard
  deviation is not zero, and \<open>b1\<close> and \<open>b0 - b1 * mean\<close> when it is, next to the mean and the
  standard deviation.
\<close>

theorem treinar_desnormaliza:
  assumes "1 \<le> max_iteracoes self" and "length X = length y" and "X \<noteq> []"
  shows "\<exists>self1 b0 b1.
           laco (nat (max_iteracoes self)) self
                (if np_std X \<noteq> 0 then map (\<lambda>x. (x - np_mean X) / np_std X) X
                 else map (\<lambda>x. x - np_mean X) X)
                y (z0 * (1 / 100)) (z1 * (1 / 100)) = (self1, Inr (b0, b1))
         \<and> treinar self X y z0 z1 =
             (self1\<lparr>coeficientes := Some
                \<lparr>intercepto = (if np_std X \<noteq> 0 then b0 - (b1 * np_mean X / np_std X)
                                else b0 - b1 * np_mean X),
                 inclinacao = (if np_std X \<noteq> 0 then b1 / np_std X else b1),
                 X_mean = np_mean X, X_std = np_std X\<rparr>\<rparr>,
              Inr \<lparr>intercepto = (if np_std X \<noteq> 0 then b0 - (b1 * np_mean X / np_std X)
                                else b0 - b1 * np_mean X),
                   inclinacao = (if np_std X \<noteq> 0 then b1 / np_std X else b1),
                   X_mean = np_mean X, X_std = np_std X\<rparr>)"
proof -
  from nat_max_Suc [OF assms(1)] obtain k where k: "nat (max_iteracoes self) = Suc k"
    by blast
  have y: "y \<noteq> []" using assms(2,3) by auto
  have l: "length (normalizar X) = length y \<or> length (normalizar X) = 1 \<or> length y = 1"
    using assms(2) by (simp add: length_normalizar)
  from laco_ok [OF y l, of k self "z0 * (1 / 100)" "z1 * (1 / 100)"]
  obtain self1 b0 b1
    where lc: "laco (nat (max_iteracoes self)) self (normalizar X) y (z0 * (1 / 100)) (z1 * (1 / 100))
                 = (self1, Inr (b0, b1))"
      and h: "historico_custo self1 \<noteq> []"
    unfolding k by blast
  have n: "normalizar X = (if np_std X \<noteq> 0 then map (\<lambda>x. (x - np_mean X) / np_std X) X
                 else map (\<lambda>x. x - np_mean X) X)"
    by (simp add: normalizar_def Let_def)
  have t: "treinar self X y z0 z1 =
         (self1\<lparr>coeficientes := Some (desnormalizar (np_mean X) (np_std X) b0 b1)\<rparr>,
          Inr (desnormalizar (np_mean X) (np_std X) b0 b1))"
    unfolding treinar_def Let_def lc using h by simp
  have d: "desnormalizar (np_mean X) (np_std X) b0 b1 =
      \<lparr>intercepto = (if np_std X \<noteq> 0 then b0 - (b1 * np_mean X / np_std X)
                                else b0 - b1 * np_mean X),
                   inclinacao = (if np_std X \<noteq> 0 then b1 / np_std X else b1),
                   X_mean = np_mean X, X_std = np_std X\<rparr>"
    by (simp add: desnormalizar_def)
  from lc t show ?thesis
    unfolding n d by blast
qed

text \<open>
  A run on \<open>X = [0, 4]\<close>, \<open>y = [1, 5]\<close> with learning rate 1: mean 2, standard deviation 2,
  the loop ends with \<open>b0 = 3\<close>, \<open>b1 = 2\<close>, and the line stored is \<open>1 + 1 * x\<close>.
\<close>

theorem treinar_desnormaliza_witness:
  "treinar (RegressaoLinearManual 1 1000 (1 / 1000000)) [0, 4] [1, 5] 0 0 =
     (\<lparr>taxa_aprendizado = 1, max_iteracoes = 1000, tolerancia = 1 / 1000000,
        coeficientes = Some \<lparr>intercepto = 1, inclinacao = 1, X_mean = 2, X_std = 2\<rparr>,
        historico_custo = [13 / 2, 0]\<rparr>,
      Inr \<lparr>intercepto = 1, inclinacao = 1, X_mean = 2, X_std = 2\<rparr>)"
proof -
  let ?m = "RegressaoLinearManual 1 1000 (1 / 1000000)"
  have h1: "1 \<le> max_iteracoes ?m"
    by (simp add: RegressaoLinearManual_def)
  have h2: "length [0, 4 :: real] = length [1, 5 :: real]"
    by simp
  have h3: "[0, 4 :: real] \<noteq> []"
    by simp
  have m: "np_mean [0, 4] = 2"
    by (simp add: np_mean_def)
  have s: "np_std [0, 4] = 2"
    by (simp add: np_std_def np_mean_def)
  from treinar_desnormaliza [OF h1 h2 h3, of 0 0] obtain self1 b0 b1
    where l: "laco (nat (max_iteracoes ?m)) ?m [-1, 1] [1, 5] 0 0 = (self1, Inr (b0, b1))"
      and t: "treinar ?m [0, 4] [1, 5] 0 0 =
                (self1\<lparr>coeficientes := Some \<lparr>intercepto = b0 - b1 * 2 / 2, inclinacao = b1 / 2,
                                                X_mean = 2, X_std = 2\<rparr>\<rparr>,
                 Inr \<lparr>intercepto = b0 - b1 * 2 / 2, inclinacao = b1 / 2, X_mean = 2, X_std = 2\<rparr>)"
    unfolding m s by auto
  have e: "laco (nat (max_iteracoes ?m)) ?m [-1, 1] [1, 5] 0 0 =
             (?m\<lparr>historico_custo := [13 / 2, 0]\<rparr>, Inr (3, 2))"
    by (simp add: avaliar)
  from l e have "self1 = ?m\<lparr>historico_custo := [13 / 2, 0]\<rparr>" and "b0 = 3" and "b1 = 2"
    by simp_all
  with t show ?thesis
    by (simp add: RegressaoLinearManual_def)
qed

text \<open>
  C3, as stated, fails on two inputs. With \<open>X\<close> of length three and \<open>y\<close> of length one the
  lengths differ, yet numpy stretches \<open>y\<close> and \<open>treinar\<close> returns coefficients. With
  \<^verbatim>\<open>max_iteracoes = 0\<close> on a new instance, equal-length non-empty input ends in the
  IndexError of \<^verbatim>\<open>self.historico_custo[-1]\<close>.
\<close>

theorem treinar_formas_counterexample:
  "length [1, 1, 1 :: real] \<noteq> length [5 :: real]
   \<and> treinar (RegressaoLinearManual (1 / 100) 1 (1 / 1000000)) [1, 1, 1] [5] 0 0 =
       (\<lparr>taxa_aprendizado = 1 / 100, max_iteracoes = 1, tolerancia = 1 / 1000000,
          coeficientes = Some \<lparr>intercepto = 3 / 20, inclinacao = 0, X_mean = 1, X_std = 0\<rparr>,
          historico_custo = [75 / 2]\<rparr>,
        Inr \<lparr>intercepto = 3 / 20, inclinacao = 0, X_mean = 1, X_std = 0\<rparr>)
   \<and> length [1, 3 :: real] = length [2, 4 :: real]
   \<and> snd (treinar (RegressaoLinearManual (1 / 100) 0 (1 / 1000000)) [1, 3] [2, 4] 0 0) =
       Inl IndexError"
  by (simp add: avaliar)

text \<open>
  C3, amended: with at least one pass, \<open>X\<close> and \<open>y\<close> of different lengths that are both at
  least two make \<open>treinar\<close> raise numpy's broadcasting error and leave the instance as it was;
  and non-empty \<open>X'\<close> and \<open>y'\<close> whose lengths are equal, or one of which has length one, make
  \<open>treinar\<close> return coefficients without raising.
\<close>

theorem treinar_formas:
  assumes "1 \<le> max_iteracoes self"
    and "length X \<noteq> length y" and "2 \<le> length X" and "2 \<le> length y"
    and "X' \<noteq> []" and "y' \<noteq> []"
    and "length X' = length y' \<or> length X' = 1 \<or> length y' = 1"
  shows "treinar self X y z0 z1 = (self, Inl BroadcastError)
         \<and> (\<exists>self1 c. treinar self X' y' z0 z1 = (self1, Inr c))"
proof -
  from nat_max_Suc [OF assms(1)] obtain k where k: "nat (max_iteracoes self) = Suc k"
    by blast
  have "laco (Suc k) self (normalizar X) y (z0 * (1 / 100)) (z1 * (1 / 100))
          = (self, Inl BroadcastError)"
    using assms(2-4) by (intro laco_broadcast) (simp_all add: length_normalizar)
  then have a: "treinar self X y z0 z1 = (self, Inl BroadcastError)"
    unfolding treinar_def Let_def k by simp
  have l: "length (normalizar X') = length y' \<or> length (normalizar X') = 1 \<or> length y' = 1"
    using assms(7) by (simp add: length_normalizar)
  from laco_ok [OF assms(6) l, of k self "z0 * (1 / 100)" "z1 * (1 / 100)"]
  obtain self1 b0 b1
    where lc: "laco (Suc k) self (normalizar X') y' (z0 * (1 / 100)) (z1 * (1 / 100))
                 = (self1, Inr (b0, b1))"
      and h: "historico_custo self1 \<noteq> []"
    by blast
  have "treinar self X' y' z0 z1 =
         (self1\<lparr>coeficientes := Some (desnormalizar (np_mean X') (np_std X') b0 b1)\<rparr>,
          Inr (desnormalizar (np_mean X') (np_std X') b0 b1))"
    unfolding treinar_def Let_def k lc using h by simp
  with a show ?thesis by blast
qed

text \<open>
  The two scenarios of the specification, with the default hyperparameters: \<open>X = [0,1,2]\<close>,
  \<open>y = [1,2]\<close> raises; \<open>X = [0,1,2,3,4]\<close>, \<open>y = [10,12,14,16,18]\<close> returns.
\<close>

theorem treinar_formas_witness:
  "treinar (RegressaoLinearManual (1 / 100) 1000 (1 / 1000000)) [0, 1, 2] [1, 2] 0 0 =
     (RegressaoLinearManual (1 / 100) 1000 (1 / 1000000), Inl BroadcastError)
   \<and> (\<exists>self1 c. treinar (RegressaoLinearManual (1 / 100) 1000 (1 / 1000000))
                    [0, 1, 2, 3, 4] [10, 12, 14, 16, 18] 0 0 = (self1, Inr c))"
proof -
  have h1: "1 \<le> max_iteracoes (RegressaoLinearManual (1 / 100) 1000 (1 / 1000000))"
    by (simp add: RegressaoLinearManual_def)
  have h2: "length [0, 1, 2 :: real] \<noteq> length [1, 2 :: real]"
    and h3: "2 \<le> length [0, 1, 2 :: real]" and h4: "2 \<le> length [1, 2 :: real]"
    by simp_all
  have h5: "[0, 1, 2, 3, 4 :: real] \<noteq> []" and h6: "[10, 12, 14, 16, 18 :: real] \<noteq> []"
    by simp_all
  have h7: "length [0, 1, 2, 3, 4 :: real] = length [10, 12, 14, 16, 18 :: real]
            \<or> length [0, 1, 2, 3, 4 :: real] = 1 \<or> length [10, 12, 14, 16, 18 :: real] = 1"
    by simp
  show ?thesis
    by (rule treinar_formas [OF h1 h2 h3 h4 h5 h6 h7])
qed

text \<open>
  C5, as stated, fails: with \<^verbatim>\<open>max_iteracoes = 0\<close> a new instance ends \<open>treinar\<close> with
  coefficients stored, so it is no longer untrained, and with an IndexError.
\<close>

theorem treinar_sem_iteracoes_counterexample:
  "treinar (RegressaoLinearManual (1 / 100) 0 (1 / 1000000)) [0, 2] [1, 1] 0 0 =
     (\<lparr>taxa_aprendizado = 1 / 100, max_iteracoes = 0, tolerancia = 1 / 1000000,
        coeficientes = Some \<lparr>intercepto = 0, inclinacao = 0, X_mean = 1, X_std = 1\<rparr>,
        historico_custo = []\<rparr>,
      Inl IndexError)"
  by (simp add: avaliar)

text \<open>
  C5, amended: with a non-positive \<^verbatim>\<open>max_iteracoes\<close>, \<open>treinar\<close> on equal-length non-empty
  input runs no pass and appends nothing to the cost history, and it stores the de-normalised
  initial coefficients: the instance it leaves is the one it was given with \<open>coeficientes\<close>
  set, hence trained.
\<close>

theorem treinar_sem_iteracoes:
  assumes "max_iteracoes self \<le> 0" and "length X = length y" and "X \<noteq> []"
  shows "fst (treinar self X y z0 z1) =
           self\<lparr>coeficientes :=
                  Some (desnormalizar (np_mean X) (np_std X) (z0 * (1 / 100)) (z1 * (1 / 100)))\<rparr>"
proof -
  from assms(1) have "nat (max_iteracoes self) = 0" by simp
  then show ?thesis
    unfolding treinar_def Let_def by simp
qed

text \<open>
  With \<^verbatim>\<open>max_iteracoes = -5\<close> and the draws 1 and 2, the initial coefficients 1/100 and
  2/100 are de-normalised over \<open>X = [0, 4]\<close> and stored.
\<close>

theorem treinar_sem_iteracoes_witness:
  "fst (treinar (RegressaoLinearManual (1 / 100) (- 5) (1 / 1000000)) [0, 4] [1, 5] 1 2) =
     \<lparr>taxa_aprendizado = 1 / 100, max_iteracoes = - 5, tolerancia = 1 / 1000000,
      coeficientes = Some \<lparr>intercepto = - (1 / 100), inclinacao = 1 / 100, X_mean = 2, X_std = 2\<rparr>,
      historico_custo = []\<rparr>"
proof -
  have h1: "max_iteracoes (RegressaoLinearManual (1 / 100) (- 5) (1 / 1000000)) \<le> 0"
    by (simp add: RegressaoLinearManual_def)
  have h2: "length [0, 4 :: real] = length [1, 5 :: real]"
    by simp
  have h3: "[0, 4 :: real] \<noteq> []"
    by simp
  have d: "desnormalizar (np_mean [0, 4]) (np_std [0, 4]) (1 * (1 / 100)) (2 * (1 / 100)) =
             \<lparr>intercepto = - (1 / 100), inclinacao = 1 / 100, X_mean = 2, X_std = 2\<rparr>"
    by (simp add: desnormalizar_def np_mean_def np_std_def)
  from treinar_sem_iteracoes [OF h1 h2 h3, of 1 2]
  show ?thesis
    unfolding d by (simp add: RegressaoLinearManual_def)
qed

subsection \<open>Training an instance that was trained before\<close>

lemma modelo_como_novo:
  "self = (mesma_configuracao self)\<lparr>historico_custo :=
             historico_custo self @ historico_custo (mesma_configuracao self),
           coeficientes := coeficientes self\<rparr>"
  by (simp add: mesma_configuracao_def RegressaoLinearManual_def)

lemma laco_retreino:
  "laco n self X_norm y b0 b1 =
     (case laco n (mesma_configuracao self) X_norm y b0 b1 of
        (self1, r) \<Rightarrow> (self1\<lparr>historico_custo := historico_custo self @ historico_custo self1,
                              coeficientes := coeficientes self\<rparr>, r))"
proof -
  have "laco n self X_norm y b0 b1 =
          laco n ((mesma_configuracao self)\<lparr>historico_custo :=
             historico_custo self @ historico_custo (mesma_configuracao self),
           coeficientes := coeficientes self\<rparr>) X_norm y b0 b1"
    using modelo_como_novo [of self] by simp
  then show ?thesis
    unfolding laco_frame .
qed

text \<open>
  C4, as stated, fails: \<open>treinar\<close> never empties \<^verbatim>\<open>self.historico_custo\<close>. After a first run
  on \<open>y = [3, 3]\<close> and a second on \<open>y = [1, 1]\<close> the history holds four costs, the first
  two left by the first run, where the second run on a new instance produces two.
\<close>

theorem retreinar_counterexample:
  "historico_custo (fst (treinar (fst (treinar (RegressaoLinearManual 1 1000 (1 / 1000000))
                                         [0, 2] [3, 3] 0 0)) [0, 2] [1, 1] 0 0))
     = [9 / 2, 0, 1 / 2, 0]
   \<and> historico_custo (fst (treinar (RegressaoLinearManual 1 1000 (1 / 1000000))
                                  [0, 2] [1, 1] 0 0))
     = [1 / 2, 0]"
  by (simp add: avaliar)

text \<open>
  C4, amended: a call of \<open>treinar\<close> on any instance, trained or not, appends to the cost
  history it finds exactly the costs that the same call appends on a new instance with the
  same hyperparameters; and it overwrites the coefficients with those of that run, keeping
  the earlier ones only when the run stores none (its loop raised).
\<close>

theorem retreinar:
  "historico_custo (fst (treinar self X y z0 z1)) =
     historico_custo self @ historico_custo (fst (treinar (mesma_configuracao self) X y z0 z1))
   \<and> coeficientes (fst (treinar self X y z0 z1)) =
       (case coeficientes (fst (treinar (mesma_configuracao self) X y z0 z1)) of
          None \<Rightarrow> coeficientes self
        | Some c \<Rightarrow> Some c)"
proof -
  let ?novo = "mesma_configuracao self"
  have mi: "max_iteracoes ?novo = max_iteracoes self"
    by (simp add: mesma_configuracao_def RegressaoLinearManual_def)
  obtain s1 r where l: "laco (nat (max_iteracoes self)) ?novo (normalizar X) y
                          (z0 * (1 / 100)) (z1 * (1 / 100)) = (s1, r)"
    by (cases "laco (nat (max_iteracoes self)) ?novo (normalizar X) y
                 (z0 * (1 / 100)) (z1 * (1 / 100))")
  from laco_coeficientes [OF l] have c1: "coeficientes s1 = None"
    by (simp add: mesma_configuracao_def RegressaoLinearManual_def)
  have l': "laco (nat (max_iteracoes self)) self (normalizar X) y (z0 * (1 / 100)) (z1 * (1 / 100))
              = (s1\<lparr>historico_custo := historico_custo self @ historico_custo s1,
                     coeficientes := coeficientes self\<rparr>, r)"
    using laco_retreino [of "nat (max_iteracoes self)" self "normalizar X" y] l by simp
  show ?thesis
  proof (cases r)
    case (Inl e)
    have "fst (treinar ?novo X y z0 z1) = s1"
      unfolding treinar_def Let_def mi l Inl by simp
    moreover have "fst (treinar self X y z0 z1) =
        s1\<lparr>historico_custo := historico_custo self @ historico_custo s1,
           coeficientes := coeficientes self\<rparr>"
      unfolding treinar_def Let_def l' Inl by simp
    ultimately show ?thesis using c1 by simp
  next
    case (Inr b)
    obtain b0 b1 where b: "b = (b0, b1)" by (cases b)
    let ?c = "desnormalizar (np_mean X) (np_std X) b0 b1"
    have "fst (treinar ?novo X y z0 z1) = s1\<lparr>coeficientes := Some ?c\<rparr>"
      unfolding treinar_def Let_def mi l Inr b by simp
    moreover have "fst (treinar self X y z0 z1) =
        s1\<lparr>historico_custo := historico_custo self @ historico_custo s1,
           coeficientes := Some ?c\<rparr>"
      unfolding treinar_def Let_def l' Inr b by simp
    ultimately show ?thesis by simp
  qed
qed


text \<open>
  An instance trained once on \<open>X = [0, 2]\<close>, \<open>y = [3, 3]\<close>, trained again on \<open>X = [0, 4]\<close>,
  \<open>y = [1, 5]\<close>: the coefficients are those of the second run, the history is the first
  run's followed by the second's.
\<close>

theorem retreinar_witness:
  "historico_custo (fst (treinar
       \<lparr>taxa_aprendizado = 1, max_iteracoes = 1000, tolerancia = 1 / 1000000,
        coeficientes = Some \<lparr>intercepto = 3, inclinacao = 0, X_mean = 1, X_std = 1\<rparr>,
        historico_custo = [9 / 2, 0]\<rparr> [0, 4] [1, 5] 0 0))
     = [9 / 2, 0, 13 / 2, 0]
   \<and> coeficientes (fst (treinar
       \<lparr>taxa_aprendizado = 1, max_iteracoes = 1000, tolerancia = 1 / 1000000,
        coeficientes = Some \<lparr>intercepto = 3, inclinacao = 0, X_mean = 1, X_std = 1\<rparr>,
        historico_custo = [9 / 2, 0]\<rparr> [0, 4] [1, 5] 0 0))
     = Some \<lparr>intercepto = 1, inclinacao = 1, X_mean = 2, X_std = 2\<rparr>"
proof -
  let ?s = "\<lparr>taxa_aprendizado = 1, max_iteracoes = 1000, tolerancia = 1 / 1000000,
        coeficientes = Some \<lparr>intercepto = 3, inclinacao = 0, X_mean = 1, X_std = 1\<rparr>,
        historico_custo = [9 / 2, 0]\<rparr>"
  have e: "treinar (mesma_configuracao ?s) [0, 4] [1, 5] 0 0 =
     (\<lparr>taxa_aprendizado = 1, max_iteracoes = 1000, tolerancia = 1 / 1000000,
        coeficientes = Some \<lparr>intercepto = 1, inclinacao = 1, X_mean = 2, X_std = 2\<rparr>,
        historico_custo = [13 / 2, 0]\<rparr>,
      Inr \<lparr>intercepto = 1, inclinacao = 1, X_mean = 2, X_std = 2\<rparr>)"
    by (simp add: mesma_configuracao_def avaliar)
  from retreinar [of ?s "[0, 4]" "[1, 5]" 0 0]
  show ?thesis
    unfolding e by simp
qed

subsection \<open>Prediction and the coefficient of determination\<close>

text \<open>
  C7: on a trained instance \<open>prever\<close> returns \<open>intercepto + inclinacao * x\<close> for each raw
  \<open>x\<close>, using neither the stored mean nor the stored standard deviation; the predictions at
  two points differ by the slope times the distance of the points; and the call leaves the
  instance as it was, so that a repeated call returns the same array.
\<close>

theorem prever_afim:
  assumes "coeficientes self = Some c"
  shows "prever self X = Inr (map (\<lambda>x. intercepto c + inclinacao c * x) X)
         \<and> (\<exists>p1 p2. prever self [x1] = Inr [p1] \<and> prever self [x2] = Inr [p2]
               \<and> p2 - p1 = inclinacao c * (x2 - x1))
         \<and> chamar self (Prever X) = (self, RetPrevisao (prever self X))"
  using assms by (simp add: prever_def algebra_simps)

text \<open>
  With intercept 10 and slope 2 stored, the inputs 5 and 6 are predicted as 20 and 22.
\<close>

theorem prever_afim_witness:
  "prever \<lparr>taxa_aprendizado = 1 / 100, max_iteracoes = 1000, tolerancia = 1 / 1000000,
           coeficientes = Some \<lparr>intercepto = 10, inclinacao = 2, X_mean = 2, X_std = sqrt 2\<rparr>,
           historico_custo = [0]\<rparr> [5, 6] = Inr [20, 22]"
proof -
  let ?s = "\<lparr>taxa_aprendizado = 1 / 100, max_iteracoes = 1000, tolerancia = 1 / 1000000,
           coeficientes = Some \<lparr>intercepto = 10, inclinacao = 2, X_mean = 2, X_std = sqrt 2\<rparr>,
           historico_custo = [0]\<rparr>"
  have h: "coeficientes ?s = Some \<lparr>intercepto = 10, inclinacao = 2, X_mean = 2, X_std = sqrt 2\<rparr>"
    by simp
  from prever_afim [OF h, of "[5, 6]"] show ?thesis
    by simp
qed

text \<open>
  C9, as stated, fails twice. On a new instance, never trained, \<open>calcular_r_quadrado\<close>
  returns a value. And after a call of \<open>treinar\<close> with \<^verbatim>\<open>max_iteracoes = 0\<close> that ended in
  the IndexError, so that no call of \<open>treinar\<close> has succeeded, \<open>obter_metricas_modelo\<close>
  returns metrics.
\<close>

theorem metricas_sem_treino_counterexample:
  "calcular_r_quadrado (RegressaoLinearManual (1 / 100) 1000 (1 / 1000000)) [1, 3] [1, 2]
     = Inr (1 / 2)
   \<and> snd (treinar (RegressaoLinearManual (1 / 100) 0 (1 / 1000000)) [0, 2] [1, 1] 0 0)
     = Inl IndexError
   \<and> obter_metricas_modelo
       (fst (treinar (RegressaoLinearManual (1 / 100) 0 (1 / 1000000)) [0, 2] [1, 1] 0 0))
       [0, 2] [1, 1]
     = Inr \<lparr>r_quadrado = 1, erro_quadratico_medio = 1, erro_absoluto_medio = 1,
            raiz_erro_quadratico_medio = 1\<rparr>"
  by (simp add: calcular_r_quadrado_def obter_metricas_modelo_def prever_def avaliar)

text \<open>
  C9, amended: on a freshly constructed instance \<open>obter_metricas_modelo\<close> raises the
  untrained-model error, through its call of \<open>prever\<close>; \<open>calcular_r_quadrado\<close> never raises
  that error and returns on a new instance what it returns on any other, since it does not
  read the instance.
\<close>

theorem metricas_sem_treino:
  "obter_metricas_modelo (RegressaoLinearManual lr mi tol) X y_real = Inl ModeloNaoTreinado
   \<and> calcular_r_quadrado self y_real y_previsto \<noteq> Inl ModeloNaoTreinado
   \<and> calcular_r_quadrado (RegressaoLinearManual lr mi tol) y_real y_previsto =
       calcular_r_quadrado self y_real y_previsto"
  by (simp add: obter_metricas_modelo_def prever_def RegressaoLinearManual_def
      calcular_r_quadrado_def np_broadcast_def Let_def)


subsection \<open>A trained instance stays trained\<close>

text \<open>
  The coefficients are assigned only by \<open>treinar\<close>, and only to a dict with four keys.
\<close>

lemma treinar_mantem_treinado:
  assumes "coeficientes self \<noteq> None"
  shows "coeficientes (fst (treinar self X y z0 z1)) \<noteq> None"
proof -
  obtain s1 r where l: "laco (nat (max_iteracoes self)) self (normalizar X) y
                          (z0 * (1 / 100)) (z1 * (1 / 100)) = (s1, r)"
    by (cases "laco (nat (max_iteracoes self)) self (normalizar X) y
                 (z0 * (1 / 100)) (z1 * (1 / 100))")
  from laco_coeficientes [OF l] assms have c: "coeficientes s1 \<noteq> None"
    by simp
  show ?thesis
  proof (cases r)
    case (Inl e)
    then show ?thesis
      unfolding treinar_def Let_def l using c by simp
  next
    case (Inr b)
    obtain b0 b1 where "b = (b0, b1)" by (cases b)
    with Inr show ?thesis
      unfolding treinar_def Let_def l by simp
  qed
qed

lemma treinar_retorno_armazenado:
  assumes "snd (treinar self X y z0 z1) = Inr c"
  shows "coeficientes (fst (treinar self X y z0 z1)) = Some c"
proof -
  obtain s1 r where l: "laco (nat (max_iteracoes self)) self (normalizar X) y
                          (z0 * (1 / 100)) (z1 * (1 / 100)) = (s1, r)"
    by (cases "laco (nat (max_iteracoes self)) self (normalizar X) y
                 (z0 * (1 / 100)) (z1 * (1 / 100))")
  show ?thesis
  proof (cases r)
    case (Inl e)
    with assms show ?thesis
      unfolding treinar_def Let_def l by simp
  next
    case (Inr b)
    obtain b0 b1 where "b = (b0, b1)" by (cases b)
    with Inr assms show ?thesis
      unfolding treinar_def Let_def l by (simp split: if_splits)
  qed
qed

lemma chamar_mantem_treinado:
  "coeficientes self \<noteq> None \<Longrightarrow> coeficientes (fst (chamar self c)) \<noteq> None"
proof (cases c)
  case (Treinar X y z0 z1)
  assume "coeficientes self \<noteq> None"
  from treinar_mantem_treinado [OF this, of X y z0 z1] Treinar show ?thesis
    by (simp add: case_prod_unfold)
qed simp_all

lemma chamar_todas_mantem_treinado:
  "coeficientes self \<noteq> None \<Longrightarrow> coeficientes (chamar_todas self cs) \<noteq> None"
proof (induction cs arbitrary: self)
  case Nil
  then show ?case by simp
next
  case (Cons c cs)
  from chamar_mantem_treinado [OF Cons.prems] have "coeficientes (fst (chamar self c)) \<noteq> None" .
  from Cons.IH [OF this] show ?case by simp
qed

text \<open>
  C10: once a call of \<open>treinar\<close> has returned coefficients, the instance stays trained through
  every later sequence of calls of the four methods, and \<open>prever\<close> on it returns predictions
  instead of raising the untrained-model error.
\<close>

theorem treinado_para_sempre:
  assumes "snd (treinar self X y z0 z1) = Inr c"
  shows "coeficientes (chamar_todas (fst (treinar self X y z0 z1)) cs) \<noteq> None
         \<and> (\<exists>p. prever (chamar_todas (fst (treinar self X y z0 z1)) cs) X' = Inr p)"
proof -
  from treinar_retorno_armazenado [OF assms]
  have "coeficientes (fst (treinar self X y z0 z1)) \<noteq> None" by simp
  from chamar_todas_mantem_treinado [OF this, of cs]
  obtain c' where "coeficientes (chamar_todas (fst (treinar self X y z0 z1)) cs) = Some c'"
    by blast
  then show ?thesis
    by (simp add: prever_def)
qed

text \<open>
  After a successful run, a prediction, a run that raises on mismatched shapes, an evaluation
  and a coefficient of determination leave the coefficients of the successful run in place.
\<close>

theorem treinado_para_sempre_witness:
  "coeficientes (chamar_todas
       (fst (treinar (RegressaoLinearManual 1 1000 (1 / 1000000)) [0, 4] [1, 5] 0 0))
       [Prever [5, 6], Treinar [0, 1, 2] [1, 2] 0 0, ObterMetricas [0, 4] [1, 5],
        CalcularRQuadrado [1, 5] [1, 5]])
     = Some \<lparr>intercepto = 1, inclinacao = 1, X_mean = 2, X_std = 2\<rparr>
   \<and> (\<exists>p. prever (chamar_todas
       (fst (treinar (RegressaoLinearManual 1 1000 (1 / 1000000)) [0, 4] [1, 5] 0 0))
       [Prever [5, 6], Treinar [0, 1, 2] [1, 2] 0 0, ObterMetricas [0, 4] [1, 5],
        CalcularRQuadrado [1, 5] [1, 5]]) [8] = Inr p)"
proof -
  have t: "treinar (RegressaoLinearManual 1 1000 (1 / 1000000)) [0, 4] [1, 5] 0 0 =
     (\<lparr>taxa_aprendizado = 1, max_iteracoes = 1000, tolerancia = 1 / 1000000,
        coeficientes = Some \<lparr>intercepto = 1, inclinacao = 1, X_mean = 2, X_std = 2\<rparr>,
        historico_custo = [13 / 2, 0]\<rparr>,
      Inr \<lparr>intercepto = 1, inclinacao = 1, X_mean = 2, X_std = 2\<rparr>)"
    by (simp add: avaliar)
  then have h: "snd (treinar (RegressaoLinearManual 1 1000 (1 / 1000000)) [0, 4] [1, 5] 0 0) =
      Inr \<lparr>intercepto = 1, inclinacao = 1, X_mean = 2, X_std = 2\<rparr>"
    by simp
  have e: "coeficientes (chamar_todas
       (fst (treinar (RegressaoLinearManual 1 1000 (1 / 1000000)) [0, 4] [1, 5] 0 0))
       [Prever [5, 6], Treinar [0, 1, 2] [1, 2] 0 0, ObterMetricas [0, 4] [1, 5],
        CalcularRQuadrado [1, 5] [1, 5]])
     = Some \<lparr>intercepto = 1, inclinacao = 1, X_mean = 2, X_std = 2\<rparr>"
    unfolding t by (simp add: avaliar)
  from treinado_para_sempre [OF h] e show ?thesis
    by blast
qed

end
